theory Spec2Isabelle
  imports Complex_Main "HOL-Library.Word"
begin

section \<open>The JSON values the decoder reads\<close>

text \<open>
  \<open>JSON::Dataset\<close> is a value object with one mutating operation, \<open>read\<close>, which
  fills the object from a \<open>QJsonObject\<close>. The JSON side is Qt's: a \<open>QJsonValue\<close> is
  a tagged union, a \<open>QJsonObject\<close> maps keys to values. An object is kept here as
  the list of its members, looked up with \<open>map_of\<close>; the decoder only asks whether
  the object is empty and what is stored under a key.

  A \<open>QString\<close> is a \<open>string\<close>: the decoder compares keys and tests emptiness,
  nothing else. A JSON number is a finite double; the decoder stores it or asks
  whether it is a whole number that fits an \<open>int\<close>, so it is kept as the real
  number the double denotes. The C++ \<open>int\<close> is a 32-bit word, read with \<open>sint\<close>.
\<close>

type_synonym QString = string

type_synonym cint = "32 word"

datatype QJsonValue =
    JNull
  | JBool bool
  | JDouble real
  | JString QString
  | JArray "QJsonValue list"
  | JObject "(QString \<times> QJsonValue) list"
  | JUndefined

type_synonym QJsonObject = "(QString \<times> QJsonValue) list"

text \<open>\<open>QJsonObject::isEmpty\<close>: the object has no member.\<close>

definition isEmpty :: "QJsonObject \<Rightarrow> bool" where
  "isEmpty object = (case object of [] \<Rightarrow> True | _ # _ \<Rightarrow> False)"

text \<open>\<open>QString::isEmpty\<close>: the string has no character. Nothing is trimmed.\<close>

definition QString_isEmpty :: "QString \<Rightarrow> bool" where
  "QString_isEmpty s = (length s = 0)"

text \<open>
  The conversions of \<open>QJsonValue\<close>, each called in \<open>read\<close> without an argument,
  so with Qt's default: a value of another type converts to \<open>false\<close>, \<open>0\<close> or the
  null string. \<open>toInt\<close> also returns the default for a double that is not a
  whole number or does not fit an \<open>int\<close>.
\<close>

definition toBool :: "QJsonValue \<Rightarrow> bool" where
  "toBool v = (case v of JBool b \<Rightarrow> b | _ \<Rightarrow> False)"

definition toDouble :: "QJsonValue \<Rightarrow> real" where
  "toDouble v = (case v of JDouble x \<Rightarrow> x | _ \<Rightarrow> 0)"

definition toString :: "QJsonValue \<Rightarrow> QString" where
  "toString v = (case v of JString s \<Rightarrow> s | _ \<Rightarrow> [])"

definition toInt :: "QJsonValue \<Rightarrow> cint" where
  "toInt v =
     (case v of
        JDouble x \<Rightarrow>
          if of_int \<lfloor>x\<rfloor> = x \<and> - (2 ^ 31) \<le> \<lfloor>x\<rfloor> \<and> \<lfloor>x\<rfloor> < 2 ^ 31
          then word_of_int \<lfloor>x\<rfloor> else 0
      | _ \<Rightarrow> 0)"

text \<open>
  Modelled from the spec: \<open>JFI_Value\<close> is declared in \<open>FrameInfo.h\<close>, which is not
  among the sources. The specification (4.1, step 2) describes it: the lookup
  tries the primary key first, falls back to the alias if the primary is absent,
  and yields a value that converts to the zero of every type if neither is
  present. \<open>JFI_Value\<close> is the call with one key, \<open>JFI_Value_alt\<close> the call with a
  key and its alias.
\<close>

definition JFI_Value :: "QJsonObject \<Rightarrow> QString \<Rightarrow> QJsonValue" where
  "JFI_Value object key =
     (case map_of object key of Some v \<Rightarrow> v | None \<Rightarrow> JNull)"

definition JFI_Value_alt :: "QJsonObject \<Rightarrow> QString \<Rightarrow> QString \<Rightarrow> QJsonValue" where
  "JFI_Value_alt object key alias =
     (case map_of object key of
        Some v \<Rightarrow> v
      | None \<Rightarrow> (case map_of object alias of Some v \<Rightarrow> v | None \<Rightarrow> JNull))"

section \<open>The Dataset\<close>

record Dataset =
  m_fft :: bool
  m_led :: bool
  m_log :: bool
  m_graph :: bool
  m_title :: QString
  m_value :: QString
  m_units :: QString
  m_widget :: QString
  m_index :: cint
  m_max :: real
  m_min :: real
  m_alarm :: real
  m_fftSamples :: cint
  m_jsonData :: QJsonObject

text \<open>
  The constructor \<open>JSON::Dataset::Dataset()\<close>. Its initialiser list names every
  member but \<open>m_jsonData\<close>, which is default-constructed: the empty object.
\<close>

definition Dataset_ctor :: Dataset where
  "Dataset_ctor =
     \<lparr> m_fft = False, m_led = False, m_log = False, m_graph = False,
       m_title = [], m_value = [], m_units = [], m_widget = [],
       m_index = 0, m_max = 0, m_min = 0, m_alarm = 0,
       m_fftSamples = 1024, m_jsonData = [] \<rparr>"

subsection \<open>Accessors\<close>

text \<open>
  The accessors are \<open>const\<close> member functions: each is a function of the state
  alone. Those whose source name is taken in HOL (\<open>log\<close>, \<open>min\<close>, \<open>max\<close>) or is
  a command name (\<open>value\<close>) carry the suffix \<open>_d\<close>.
\<close>

definition fft :: "Dataset \<Rightarrow> bool" where
  "fft d = m_fft d"

definition led :: "Dataset \<Rightarrow> bool" where
  "led d = m_led d"

definition log_d :: "Dataset \<Rightarrow> bool" where
  "log_d d = m_log d"

definition graph :: "Dataset \<Rightarrow> bool" where
  "graph d = m_graph d"

definition min_d :: "Dataset \<Rightarrow> real" where
  "min_d d = m_min d"

definition max_d :: "Dataset \<Rightarrow> real" where
  "max_d d = m_max d"

definition alarm :: "Dataset \<Rightarrow> real" where
  "alarm d = m_alarm d"

definition title :: "Dataset \<Rightarrow> QString" where
  "title d = m_title d"

definition value_d :: "Dataset \<Rightarrow> QString" where
  "value_d d = m_value d"

definition units :: "Dataset \<Rightarrow> QString" where
  "units d = m_units d"

definition widget :: "Dataset \<Rightarrow> QString" where
  "widget d = m_widget d"

text \<open>\<open>qMax(a, b)\<close> is \<open>(a < b) ? b : a\<close>, here on signed 32-bit integers.\<close>

definition qMax :: "cint \<Rightarrow> cint \<Rightarrow> cint" where
  "qMax a b = (if a <s b then b else a)"

definition fftSamples :: "Dataset \<Rightarrow> cint" where
  "fftSamples d = qMax 1 (m_fftSamples d)"

definition jsonData :: "Dataset \<Rightarrow> QJsonObject" where
  "jsonData d = m_jsonData d"

subsection \<open>Decoding\<close>

text \<open>
  \<open>JSON::Dataset::read\<close>. The method mutates the object and returns a \<open>bool\<close>;
  the model takes the state before the call and returns the \<open>bool\<close> with the
  state after it. The twelve locals are read in the order of the source, then
  the gate on \<open>value\<close> and \<open>title\<close> decides whether the thirteen assignments
  happen. No statement of the method can throw, so there is no error branch.
\<close>

definition read :: "Dataset \<Rightarrow> QJsonObject \<Rightarrow> bool \<times> Dataset" where
  "read d object =
     (if \<not> isEmpty object then
        (let fft' = toBool (JFI_Value object ''fft'');
             led' = toBool (JFI_Value object ''led'');
             log' = toBool (JFI_Value object ''log'');
             min' = toDouble (JFI_Value object ''min'');
             max' = toDouble (JFI_Value object ''max'');
             alarm' = toDouble (JFI_Value object ''alarm'');
             graph' = toBool (JFI_Value_alt object ''graph'' ''g'');
             title' = toString (JFI_Value_alt object ''title'' ''t'');
             value' = toString (JFI_Value_alt object ''value'' ''v'');
             units' = toString (JFI_Value_alt object ''units'' ''u'');
             widget' = toString (JFI_Value_alt object ''widget'' ''w'');
             fftSamples' = toInt (JFI_Value object ''fftSamples'')
         in if \<not> QString_isEmpty value' \<and> \<not> QString_isEmpty title' then
              (True,
               d\<lparr> m_min := min', m_max := max', m_fft := fft', m_led := led',
                  m_log := log', m_graph := graph', m_title := title',
                  m_units := units', m_value := value', m_alarm := alarm',
                  m_widget := widget', m_jsonData := object,
                  m_fftSamples := fftSamples' \<rparr>)
            else (False, d))
      else (False, d))"

subsection \<open>Example objects\<close>

text \<open>
  Objects used to run the decoder: the compact encoding with aliases only, an
  object with the two required keys and nothing else, one whose title and value
  are a single blank, the required keys with a sample count of 0 and of 2048,
  one with every key of the schema, and one that gives the title under both its
  key and its alias.
\<close>

definition speed_alias :: QJsonObject where
  "speed_alias = [(''t'', JString ''Speed''), (''v'', JString ''10''), (''g'', JBool True)]"

definition speed_plain :: QJsonObject where
  "speed_plain = [(''title'', JString ''Speed''), (''value'', JString ''10'')]"

definition blank_fields :: QJsonObject where
  "blank_fields = [(''title'', JString '' ''), (''value'', JString '' '')]"

definition speed_fft0 :: QJsonObject where
  "speed_fft0 = (''fftSamples'', JDouble 0) # speed_plain"

definition speed_fft2048 :: QJsonObject where
  "speed_fft2048 = (''fftSamples'', JDouble 2048) # speed_plain"

definition all_keys :: QJsonObject where
  "all_keys =
     [(''title'', JString ''Temp''), (''value'', JString ''21''), (''units'', JString ''C''),
      (''widget'', JString ''bar''), (''graph'', JBool True), (''fft'', JBool True),
      (''led'', JBool False), (''log'', JBool True), (''min'', JDouble 1),
      (''max'', JDouble 100), (''alarm'', JDouble 80), (''fftSamples'', JDouble 512)]"

definition both_titles :: QJsonObject where
  "both_titles = [(''t'', JString ''Short''), (''title'', JString ''Long''), (''v'', JString ''1'')]"

section \<open>Properties\<close>

subsection \<open>Shared facts\<close>

lemmas accessor_defs =
  fft_def led_def log_d_def graph_def min_d_def max_d_def alarm_def title_def
  value_d_def units_def widget_def fftSamples_def jsonData_def

lemmas lookup_defs = JFI_Value_def JFI_Value_alt_def

lemmas coercion_defs = toBool_def toDouble_def toString_def toInt_def

lemma qMax_one_sint: "sint (qMax 1 x) = max 1 (sint x)"
  by (simp add: qMax_def word_sless_alt)

lemma read_empty: "read d [] = (False, d)"
  by (simp add: read_def isEmpty_def)

lemma extracted_nonempty_object:
  "\<not> QString_isEmpty (toString (JFI_Value_alt object key alias)) \<Longrightarrow> \<not> isEmpty object"
  by (cases object) (simp_all add: isEmpty_def QString_isEmpty_def toString_def JFI_Value_alt_def)

lemma read_cases:
  "read d object =
     (if QString_isEmpty (toString (JFI_Value_alt object ''value'' ''v''))
         \<or> QString_isEmpty (toString (JFI_Value_alt object ''title'' ''t''))
      then (False, d)
      else (True,
            d\<lparr> m_min := toDouble (JFI_Value object ''min''),
               m_max := toDouble (JFI_Value object ''max''),
               m_fft := toBool (JFI_Value object ''fft''),
               m_led := toBool (JFI_Value object ''led''),
               m_log := toBool (JFI_Value object ''log''),
               m_graph := toBool (JFI_Value_alt object ''graph'' ''g''),
               m_title := toString (JFI_Value_alt object ''title'' ''t''),
               m_units := toString (JFI_Value_alt object ''units'' ''u''),
               m_value := toString (JFI_Value_alt object ''value'' ''v''),
               m_alarm := toDouble (JFI_Value object ''alarm''),
               m_widget := toString (JFI_Value_alt object ''widget'' ''w''),
               m_jsonData := object,
               m_fftSamples := toInt (JFI_Value object ''fftSamples'') \<rparr>))"
proof (cases "isEmpty object")
  case True
  then have "object = []"
    by (cases object) (simp_all add: isEmpty_def)
  then show ?thesis
    by (simp add: read_empty QString_isEmpty_def toString_def JFI_Value_alt_def)
next
  case False
  then show ?thesis
    by (simp add: read_def Let_def)
qed

subsection \<open>The index is outside the decoder's footprint\<close>

text \<open>
  C9. The Dataset has an index field, \<open>m_index\<close>, which the constructor sets to
  0 and which \<open>read\<close> never assigns: after a call, successful or not, the index
  is what it was before the call.
\<close>

theorem read_keeps_index:
  "m_index Dataset_ctor = 0 \<and> m_index (snd (read d object)) = m_index d"
  by (simp add: Dataset_ctor_def read_cases)

subsection \<open>Successful decoding\<close>

text \<open>
  C1. When the extracted title and the extracted value are both non-empty,
  \<open>read\<close> returns true; every field of the schema holds the converted value
  found under its key (or, for the five fields that have one, under its alias);
  the input object is stored unchanged as the raw source. A field whose key and
  alias are both absent holds the default of its type: false, 0 or the empty
  string. (Title and value have no such case: with both keys absent the
  extracted string is empty and the call does not succeed.)
\<close>

theorem read_success:
  assumes "\<not> QString_isEmpty (toString (JFI_Value_alt object ''title'' ''t''))"
    and "\<not> QString_isEmpty (toString (JFI_Value_alt object ''value'' ''v''))"
  shows "read d object =
      (True,
       d\<lparr> m_fft := toBool (JFI_Value object ''fft''),
          m_led := toBool (JFI_Value object ''led''),
          m_log := toBool (JFI_Value object ''log''),
          m_min := toDouble (JFI_Value object ''min''),
          m_max := toDouble (JFI_Value object ''max''),
          m_alarm := toDouble (JFI_Value object ''alarm''),
          m_graph := toBool (JFI_Value_alt object ''graph'' ''g''),
          m_title := toString (JFI_Value_alt object ''title'' ''t''),
          m_value := toString (JFI_Value_alt object ''value'' ''v''),
          m_units := toString (JFI_Value_alt object ''units'' ''u''),
          m_widget := toString (JFI_Value_alt object ''widget'' ''w''),
          m_fftSamples := toInt (JFI_Value object ''fftSamples''),
          m_jsonData := object \<rparr>)
    \<and> jsonData (snd (read d object)) = object
    \<and> (map_of object ''fft'' = None \<longrightarrow> fft (snd (read d object)) = False)
    \<and> (map_of object ''led'' = None \<longrightarrow> led (snd (read d object)) = False)
    \<and> (map_of object ''log'' = None \<longrightarrow> log_d (snd (read d object)) = False)
    \<and> (map_of object ''min'' = None \<longrightarrow> min_d (snd (read d object)) = 0)
    \<and> (map_of object ''max'' = None \<longrightarrow> max_d (snd (read d object)) = 0)
    \<and> (map_of object ''alarm'' = None \<longrightarrow> alarm (snd (read d object)) = 0)
    \<and> (map_of object ''graph'' = None \<and> map_of object ''g'' = None
          \<longrightarrow> graph (snd (read d object)) = False)
    \<and> (map_of object ''units'' = None \<and> map_of object ''u'' = None
          \<longrightarrow> units (snd (read d object)) = [])
    \<and> (map_of object ''widget'' = None \<and> map_of object ''w'' = None
          \<longrightarrow> widget (snd (read d object)) = [])
    \<and> (map_of object ''fftSamples'' = None \<longrightarrow> m_fftSamples (snd (read d object)) = 0)"
proof -
  have r: "read d object =
      (True,
       d\<lparr> m_fft := toBool (JFI_Value object ''fft''),
          m_led := toBool (JFI_Value object ''led''),
          m_log := toBool (JFI_Value object ''log''),
          m_min := toDouble (JFI_Value object ''min''),
          m_max := toDouble (JFI_Value object ''max''),
          m_alarm := toDouble (JFI_Value object ''alarm''),
          m_graph := toBool (JFI_Value_alt object ''graph'' ''g''),
          m_title := toString (JFI_Value_alt object ''title'' ''t''),
          m_value := toString (JFI_Value_alt object ''value'' ''v''),
          m_units := toString (JFI_Value_alt object ''units'' ''u''),
          m_widget := toString (JFI_Value_alt object ''widget'' ''w''),
          m_fftSamples := toInt (JFI_Value object ''fftSamples''),
          m_jsonData := object \<rparr>)"
    using assms by (simp add: read_cases)
  show ?thesis
    unfolding r by (simp add: accessor_defs lookup_defs coercion_defs)
qed

theorem read_success_witness:
  "\<not> QString_isEmpty (toString (JFI_Value_alt speed_plain ''title'' ''t''))
   \<and> \<not> QString_isEmpty (toString (JFI_Value_alt speed_plain ''value'' ''v''))
   \<and> map_of speed_plain ''fft'' = None
   \<and> map_of speed_plain ''graph'' = None \<and> map_of speed_plain ''g'' = None
   \<and> read Dataset_ctor speed_plain =
       (True,
        \<lparr> m_fft = False, m_led = False, m_log = False, m_graph = False,
          m_title = ''Speed'', m_value = ''10'', m_units = [], m_widget = [],
          m_index = 0, m_max = 0, m_min = 0, m_alarm = 0,
          m_fftSamples = 0, m_jsonData = speed_plain \<rparr>)
   \<and> read Dataset_ctor all_keys =
       (True,
        \<lparr> m_fft = True, m_led = False, m_log = True, m_graph = True,
          m_title = ''Temp'', m_value = ''21'', m_units = ''C'', m_widget = ''bar'',
          m_index = 0, m_max = 100, m_min = 1, m_alarm = 80,
          m_fftSamples = 512, m_jsonData = all_keys \<rparr>)"
proof -
  have t: "\<not> QString_isEmpty (toString (JFI_Value_alt speed_plain ''title'' ''t''))"
    by (simp add: speed_plain_def lookup_defs coercion_defs QString_isEmpty_def)
  have v: "\<not> QString_isEmpty (toString (JFI_Value_alt speed_plain ''value'' ''v''))"
    by (simp add: speed_plain_def lookup_defs coercion_defs QString_isEmpty_def)
  have a: "map_of speed_plain ''fft'' = None \<and> map_of speed_plain ''graph'' = None
      \<and> map_of speed_plain ''g'' = None"
    by (simp add: speed_plain_def)
  from read_success [OF t v, of Dataset_ctor]
  have p: "read Dataset_ctor speed_plain =
       (True,
        \<lparr> m_fft = False, m_led = False, m_log = False, m_graph = False,
          m_title = ''Speed'', m_value = ''10'', m_units = [], m_widget = [],
          m_index = 0, m_max = 0, m_min = 0, m_alarm = 0,
          m_fftSamples = 0, m_jsonData = speed_plain \<rparr>)"
    by (simp add: Dataset_ctor_def lookup_defs coercion_defs) (simp add: speed_plain_def)
  have t': "\<not> QString_isEmpty (toString (JFI_Value_alt all_keys ''title'' ''t''))"
    by (simp add: all_keys_def lookup_defs coercion_defs QString_isEmpty_def)
  have v': "\<not> QString_isEmpty (toString (JFI_Value_alt all_keys ''value'' ''v''))"
    by (simp add: all_keys_def lookup_defs coercion_defs QString_isEmpty_def)
  from read_success [OF t' v', of Dataset_ctor]
  have q: "read Dataset_ctor all_keys =
       (True,
        \<lparr> m_fft = True, m_led = False, m_log = True, m_graph = True,
          m_title = ''Temp'', m_value = ''21'', m_units = ''C'', m_widget = ''bar'',
          m_index = 0, m_max = 100, m_min = 1, m_alarm = 80,
          m_fftSamples = 512, m_jsonData = all_keys \<rparr>)"
    by (simp add: Dataset_ctor_def lookup_defs coercion_defs) (simp add: all_keys_def)
  from t v a p q show ?thesis by simp
qed

subsection \<open>Failure\<close>

text \<open>
  C2. \<open>read\<close> returns false exactly when the object is empty, or the extracted
  title is empty, or the extracted value is empty. Nothing else makes it fail:
  an object that has a non-empty title and value and no other key is decoded.
  The result is always a pair of the returned \<open>bool\<close> and a state; there is no
  other way out of the call.
\<close>

theorem read_false_iff:
  "(fst (read d object) = False) =
     (isEmpty object
      \<or> QString_isEmpty (toString (JFI_Value_alt object ''title'' ''t''))
      \<or> QString_isEmpty (toString (JFI_Value_alt object ''value'' ''v'')))
   \<and> (t \<noteq> [] \<and> v \<noteq> [] \<longrightarrow>
        fst (read d [(''title'', JString t), (''value'', JString v)]) = True)"
proof -
  have "isEmpty object \<Longrightarrow>
      QString_isEmpty (toString (JFI_Value_alt object ''title'' ''t''))"
    using extracted_nonempty_object [of object "''title''" "''t''"] by blast
  then have "(fst (read d object) = False) =
     (isEmpty object
      \<or> QString_isEmpty (toString (JFI_Value_alt object ''title'' ''t''))
      \<or> QString_isEmpty (toString (JFI_Value_alt object ''value'' ''v'')))"
    by (auto simp add: read_cases)
  moreover have "t \<noteq> [] \<and> v \<noteq> [] \<longrightarrow>
        fst (read d [(''title'', JString t), (''value'', JString v)]) = True"
    by (simp add: read_cases lookup_defs coercion_defs QString_isEmpty_def)
  ultimately show ?thesis by blast
qed

theorem read_false_iff_witness:
  "''Speed'' \<noteq> [] \<and> ''10'' \<noteq> []
   \<and> fst (read Dataset_ctor speed_plain) = True
   \<and> fst (read Dataset_ctor []) = False
   \<and> fst (read Dataset_ctor [(''title'', JString ''Speed'')]) = False
   \<and> fst (read Dataset_ctor [(''value'', JString ''10'')]) = False"
  using read_false_iff [of Dataset_ctor "[]" "''Speed''" "''10''"]
    read_false_iff [of Dataset_ctor "[(''title'', JString ''Speed'')]" "''Speed''" "''10''"]
    read_false_iff [of Dataset_ctor "[(''value'', JString ''10'')]" "''Speed''" "''10''"]
  by (simp add: speed_plain_def isEmpty_def lookup_defs coercion_defs QString_isEmpty_def)

subsection \<open>Atomicity\<close>




subsection \<open>The floor of the sample count\<close>

text \<open>
  C4. \<open>fftSamples()\<close> returns the larger of 1 and the stored value, so never
  less than 1. After a successful decode of an object whose \<open>fftSamples\<close> is 0,
  or that has no such key, it returns 1; when \<open>fftSamples\<close> is 2048 it returns
  2048.
\<close>

theorem fftSamples_floor:
  "sint (fftSamples d) = max 1 (sint (m_fftSamples d))
   \<and> 1 \<le> sint (fftSamples d)
   \<and> (fst (read d object) = True
        \<and> (map_of object ''fftSamples'' = Some (JDouble 0)
            \<or> map_of object ''fftSamples'' = None)
        \<longrightarrow> fftSamples (snd (read d object)) = 1)
   \<and> (fst (read d object) = True \<and> map_of object ''fftSamples'' = Some (JDouble 2048)
        \<longrightarrow> fftSamples (snd (read d object)) = 2048)"
proof -
  have a: "sint (fftSamples d) = max 1 (sint (m_fftSamples d))"
    by (simp add: fftSamples_def qMax_one_sint)
  have b: "fst (read d object) = True \<Longrightarrow>
      m_fftSamples (snd (read d object)) = toInt (JFI_Value object ''fftSamples'')"
    by (simp add: read_cases split: if_splits)
  have c: "fst (read d object) = True
        \<and> (map_of object ''fftSamples'' = Some (JDouble 0)
            \<or> map_of object ''fftSamples'' = None)
        \<longrightarrow> fftSamples (snd (read d object)) = 1"
    using b by (auto simp add: fftSamples_def qMax_def JFI_Value_def toInt_def word_sless_alt)
  have e: "fst (read d object) = True \<and> map_of object ''fftSamples'' = Some (JDouble 2048)
        \<longrightarrow> fftSamples (snd (read d object)) = 2048"
    using b by (auto simp add: fftSamples_def qMax_def JFI_Value_def toInt_def word_sless_alt)
  from a c e show ?thesis by simp
qed

theorem fftSamples_floor_witness:
  "fst (read Dataset_ctor speed_fft0) = True
   \<and> map_of speed_fft0 ''fftSamples'' = Some (JDouble 0)
   \<and> fftSamples (snd (read Dataset_ctor speed_fft0)) = 1
   \<and> fst (read Dataset_ctor speed_plain) = True
   \<and> map_of speed_plain ''fftSamples'' = None
   \<and> fftSamples (snd (read Dataset_ctor speed_plain)) = 1
   \<and> fst (read Dataset_ctor speed_fft2048) = True
   \<and> map_of speed_fft2048 ''fftSamples'' = Some (JDouble 2048)
   \<and> fftSamples (snd (read Dataset_ctor speed_fft2048)) = 2048
   \<and> sint (fftSamples (Dataset_ctor\<lparr> m_fftSamples := - 5 \<rparr>)) = 1"
proof -
  have r: "fst (read Dataset_ctor speed_fft0) = True"
    "fst (read Dataset_ctor speed_plain) = True"
    "fst (read Dataset_ctor speed_fft2048) = True"
    by (simp_all add: read_cases speed_fft0_def speed_plain_def speed_fft2048_def lookup_defs coercion_defs QString_isEmpty_def)
  have k: "map_of speed_fft0 ''fftSamples'' = Some (JDouble 0)"
    "map_of speed_plain ''fftSamples'' = None"
    "map_of speed_fft2048 ''fftSamples'' = Some (JDouble 2048)"
    by (simp_all add: speed_fft0_def speed_plain_def speed_fft2048_def)
  have s: "sint (- 5 :: cint) = - 5"
    by simp
  from r k s
    fftSamples_floor [of Dataset_ctor speed_fft0]
    fftSamples_floor [of Dataset_ctor speed_plain]
    fftSamples_floor [of Dataset_ctor speed_fft2048]
    fftSamples_floor [of "Dataset_ctor\<lparr> m_fftSamples := - 5 \<rparr>" "[]"]
  show ?thesis by simp
qed

subsection \<open>Key with fallback\<close>

text \<open>
  C5. A field is looked up under its primary key first and under its alias only
  when the primary key is absent; the five fields that have an alias (graph,
  title, value, units, widget) are read that way. Decoding the object that holds
  only \<open>t = "Speed"\<close>, \<open>v = "10"\<close> and \<open>g = true\<close> succeeds, and then
  \<open>graph()\<close> is true, \<open>title()\<close> is \<open>"Speed"\<close> and \<open>value()\<close> is \<open>"10"\<close>.
\<close>

theorem alias_fallback:
  "(map_of object key = Some v \<longrightarrow> JFI_Value_alt object key alias = v)
   \<and> (map_of object key = None \<longrightarrow>
        JFI_Value_alt object key alias = JFI_Value object alias)
   \<and> (fst (read d object) = True \<longrightarrow>
        graph (snd (read d object)) = toBool (JFI_Value_alt object ''graph'' ''g'')
        \<and> title (snd (read d object)) = toString (JFI_Value_alt object ''title'' ''t'')
        \<and> value_d (snd (read d object)) = toString (JFI_Value_alt object ''value'' ''v'')
        \<and> units (snd (read d object)) = toString (JFI_Value_alt object ''units'' ''u'')
        \<and> widget (snd (read d object)) = toString (JFI_Value_alt object ''widget'' ''w''))
   \<and> fst (read d speed_alias) = True
   \<and> graph (snd (read d speed_alias)) = True
   \<and> title (snd (read d speed_alias)) = ''Speed''
   \<and> value_d (snd (read d speed_alias)) = ''10''"
proof -
  have a: "map_of object key = Some v \<longrightarrow> JFI_Value_alt object key alias = v"
    by (simp add: JFI_Value_alt_def)
  have b: "map_of object key = None \<longrightarrow>
        JFI_Value_alt object key alias = JFI_Value object alias"
    by (simp add: lookup_defs)
  have c: "fst (read d object) = True \<longrightarrow>
        graph (snd (read d object)) = toBool (JFI_Value_alt object ''graph'' ''g'')
        \<and> title (snd (read d object)) = toString (JFI_Value_alt object ''title'' ''t'')
        \<and> value_d (snd (read d object)) = toString (JFI_Value_alt object ''value'' ''v'')
        \<and> units (snd (read d object)) = toString (JFI_Value_alt object ''units'' ''u'')
        \<and> widget (snd (read d object)) = toString (JFI_Value_alt object ''widget'' ''w'')"
    by (simp add: read_cases accessor_defs)
  have e: "fst (read d speed_alias) = True
      \<and> graph (snd (read d speed_alias)) = True
      \<and> title (snd (read d speed_alias)) = ''Speed''
      \<and> value_d (snd (read d speed_alias)) = ''10''"
    by (simp add: read_cases accessor_defs speed_alias_def lookup_defs coercion_defs
        QString_isEmpty_def)
  from a b c e show ?thesis by blast
qed

theorem alias_fallback_witness:
  "map_of both_titles ''title'' = Some (JString ''Long'')
   \<and> JFI_Value_alt both_titles ''title'' ''t'' = JString ''Long''
   \<and> map_of both_titles ''value'' = None
   \<and> JFI_Value_alt both_titles ''value'' ''v'' = JString ''1''
   \<and> fst (read Dataset_ctor both_titles) = True
   \<and> title (snd (read Dataset_ctor both_titles)) = ''Long''
   \<and> value_d (snd (read Dataset_ctor both_titles)) = ''1''"
proof -
  have p: "map_of both_titles ''title'' = Some (JString ''Long'')"
    by (simp add: both_titles_def)
  have q: "map_of both_titles ''value'' = None"
    by (simp add: both_titles_def)
  have r: "fst (read Dataset_ctor both_titles) = True"
    by (simp add: read_cases both_titles_def lookup_defs coercion_defs QString_isEmpty_def)
  have v: "JFI_Value both_titles ''v'' = JString ''1''"
    by (simp add: both_titles_def JFI_Value_def)
  from p q r v
    alias_fallback [of both_titles "''title''" "JString ''Long''" "''t''" Dataset_ctor]
    alias_fallback [of both_titles "''value''" "JString ''Long''" "''v''" Dataset_ctor]
  show ?thesis by (simp add: toString_def)
qed

subsection \<open>Construction\<close>

text \<open>
  C6, as stated: a freshly constructed Dataset has the four flags false, the
  four strings empty, min, max and alarm 0, and stored sample count 0. The
  constructor stores 1024 as the sample count, so the statement fails.
\<close>

theorem ctor_fftSamples_counterexample:
  "\<not> (m_fft Dataset_ctor = False \<and> m_led Dataset_ctor = False
       \<and> m_log Dataset_ctor = False \<and> m_graph Dataset_ctor = False
       \<and> m_title Dataset_ctor = [] \<and> m_value Dataset_ctor = []
       \<and> m_units Dataset_ctor = [] \<and> m_widget Dataset_ctor = []
       \<and> m_min Dataset_ctor = 0 \<and> m_max Dataset_ctor = 0 \<and> m_alarm Dataset_ctor = 0
       \<and> m_fftSamples Dataset_ctor = 0)"
  by (simp add: Dataset_ctor_def)

text \<open>
  C6, amended: a freshly constructed Dataset has the four flags false, the four
  strings empty, min, max and alarm 0, and stored sample count 1024, which is
  also what \<open>fftSamples()\<close> returns.
\<close>

theorem ctor_defaults:
  "m_fft Dataset_ctor = False \<and> m_led Dataset_ctor = False
   \<and> m_log Dataset_ctor = False \<and> m_graph Dataset_ctor = False
   \<and> m_title Dataset_ctor = [] \<and> m_value Dataset_ctor = []
   \<and> m_units Dataset_ctor = [] \<and> m_widget Dataset_ctor = []
   \<and> m_min Dataset_ctor = 0 \<and> m_max Dataset_ctor = 0 \<and> m_alarm Dataset_ctor = 0
   \<and> m_fftSamples Dataset_ctor = 1024
   \<and> fftSamples Dataset_ctor = 1024"
  by (simp add: Dataset_ctor_def fftSamples_def qMax_def word_sless_alt)

subsection \<open>Decoding twice\<close>

text \<open>
  C7. \<open>read\<close> is idempotent on a valid object: when the extracted title and
  value are non-empty, a second call with the same object returns true like the
  first and leaves every field as the first call set it.
\<close>

theorem read_idempotent:
  assumes "\<not> QString_isEmpty (toString (JFI_Value_alt object ''title'' ''t''))"
    and "\<not> QString_isEmpty (toString (JFI_Value_alt object ''value'' ''v''))"
  shows "fst (read d object) = True
    \<and> read (snd (read d object)) object = (True, snd (read d object))"
  using assms by (simp add: read_cases)

theorem read_idempotent_witness:
  "\<not> QString_isEmpty (toString (JFI_Value_alt speed_fft2048 ''title'' ''t''))
   \<and> \<not> QString_isEmpty (toString (JFI_Value_alt speed_fft2048 ''value'' ''v''))
   \<and> fst (read Dataset_ctor speed_fft2048) = True
   \<and> read (snd (read Dataset_ctor speed_fft2048)) speed_fft2048
       = (True, snd (read Dataset_ctor speed_fft2048))"
proof -
  have t: "\<not> QString_isEmpty (toString (JFI_Value_alt speed_fft2048 ''title'' ''t''))"
    by (simp add: speed_fft2048_def speed_plain_def lookup_defs coercion_defs QString_isEmpty_def)
  have v: "\<not> QString_isEmpty (toString (JFI_Value_alt speed_fft2048 ''value'' ''v''))"
    by (simp add: speed_fft2048_def speed_plain_def lookup_defs coercion_defs QString_isEmpty_def)
  from t v read_idempotent [OF t v, of Dataset_ctor] show ?thesis
    by blast
qed

subsection \<open>No trimming at the gate\<close>

text \<open>
  C10. The gate tests whether the strings are empty and trims nothing: when the
  extracted title and value each have at least one character, whatever the
  characters are, \<open>read\<close> returns true and stores the two strings as extracted.
  A title of one blank is such a title.
\<close>

theorem read_no_trimming:
  assumes "0 < length (toString (JFI_Value_alt object ''title'' ''t''))"
    and "0 < length (toString (JFI_Value_alt object ''value'' ''v''))"
  shows "fst (read d object) = True
    \<and> title (snd (read d object)) = toString (JFI_Value_alt object ''title'' ''t'')
    \<and> value_d (snd (read d object)) = toString (JFI_Value_alt object ''value'' ''v'')"
  using assms by (simp add: read_cases QString_isEmpty_def accessor_defs)

theorem read_no_trimming_witness:
  "0 < length (toString (JFI_Value_alt blank_fields ''title'' ''t''))
   \<and> 0 < length (toString (JFI_Value_alt blank_fields ''value'' ''v''))
   \<and> toString (JFI_Value_alt blank_fields ''title'' ''t'') = '' ''
   \<and> fst (read Dataset_ctor blank_fields) = True
   \<and> title (snd (read Dataset_ctor blank_fields)) = '' ''
   \<and> value_d (snd (read Dataset_ctor blank_fields)) = '' ''"
proof -
  have t: "toString (JFI_Value_alt blank_fields ''title'' ''t'') = '' ''"
    by (simp add: blank_fields_def lookup_defs coercion_defs)
  have v: "toString (JFI_Value_alt blank_fields ''value'' ''v'') = '' ''"
    by (simp add: blank_fields_def lookup_defs coercion_defs)
  have lt: "0 < length (toString (JFI_Value_alt blank_fields ''title'' ''t''))"
    by (simp add: t)
  have lv: "0 < length (toString (JFI_Value_alt blank_fields ''value'' ''v''))"
    by (simp add: v)
  from read_no_trimming [OF lt lv, of Dataset_ctor] t v lt lv show ?thesis
    by simp
qed

end
